theory Spec2Isabelle
  imports Main "HOL-Library.Sublist"
begin

section \<open>The session agent (Agent component)\<close>

subsection \<open>Data\<close>

text \<open>
  The enum \<open>CallStatus\<close> and the interfaces \<open>SavedMessage\<close>, \<open>Message\<close> and
  \<open>AgentProps\<close> of the Agent component. A JavaScript string is a \<open>string\<close>; a
  field that may be \<open>undefined\<close> is an \<open>option\<close>.
\<close>

datatype CallStatus = INACTIVE | CONNECTING | ACTIVE | FINISHED

datatype Role = User | System | Assistant

record SavedMessage =
  role :: Role
  content :: string

record Message =
  msg_type :: string
  msg_transcriptType :: "string option"
  msg_role :: Role
  msg_transcript :: string

datatype AgentType = Generate | Interview

record AgentProps =
  userName :: string
  userId :: string
  interviewId :: string
  feedbackId :: "string option"
  agent_type :: AgentType
  questions :: "string list option"

text \<open>
  What the component reads from outside itself: the two environment variables and the
  constant \<open>interviewer\<close> of the constants module (an assistant configuration, here
  named by a string; the component only tests that it is defined and passes it on).
\<close>

record Env =
  NEXT_PUBLIC_VAPI_WORKFLOW_ID :: "string option"
  NEXT_PUBLIC_VAPI_ASSISTANT_ID :: "string option"
  interviewer :: "string option"

text \<open>JavaScript truthiness of a string that may be undefined: defined and not empty.\<close>

definition truthy :: "string option \<Rightarrow> bool" where
  "truthy v = (case v of None \<Rightarrow> False | Some s \<Rightarrow> s \<noteq> [])"

text \<open>
  The React state of the component. \<open>debugLogs\<close> is only ever appended to and never
  read; every \<open>addDebugLog\<close> is an action below.
\<close>

record AgentState =
  callStatus :: CallStatus
  messages :: "SavedMessage list"
  isSpeaking :: bool
  lastMessage :: string

definition initial_state :: AgentState where
  "initial_state = \<lparr>callStatus = INACTIVE, messages = [], isSpeaking = False, lastMessage = []\<rparr>"

subsection \<open>Calls to the outside\<close>

text \<open>
  A listener is a closure made by one run of the first effect: the number of the run and
  which of the six functions it is. Two runs make different function references.
\<close>

datatype Handler =
  H_onCallStart | H_onCallEnd | H_onMessage | H_onSpeechStart | H_onSpeechEnd | H_onError

type_synonym listener = "nat \<times> Handler"

datatype start_target = EnvAssistantId "string option" | InterviewerConfig "string option"

record FeedbackParams =
  fp_interviewId :: string
  fp_userId :: string
  fp_transcript :: "SavedMessage list"
  fp_feedbackId :: "string option"

text \<open>
  Everything a handler does besides setting state, in the order it does it. A
  \<open>DebugLog\<close> carries the fixed text of the logged line (the interpolated values are
  left out); a timer is named by the number of the \<open>handleCall\<close> invocation that set it.
  \<open>UnhandledRejection\<close> stands for an exception that leaves \<open>handleCall\<close>: the promise
  the click handler drops is rejected.
\<close>

datatype action =
    is_DebugLog: DebugLog string
  | is_ConsoleError: ConsoleError string
  | is_Alert: Alert string
  | is_RouterPush: RouterPush string
  | is_VapiOn: VapiOn string listener
  | is_VapiOff: VapiOff string listener
  | is_GetUserMedia: GetUserMedia
  | is_StopTracks: StopTracks
  | is_SetTimeout: SetTimeout nat
  | is_ClearTimeout: ClearTimeout nat
  | is_VapiStart: VapiStart start_target "(string \<times> string) list"
  | is_VapiStop: VapiStop
  | is_CreateFeedback: CreateFeedback FeedbackParams
  | is_UnhandledRejection: UnhandledRejection

subsection \<open>The SDK event handlers (first effect)\<close>

definition onCallStart :: "AgentState \<Rightarrow> AgentState \<times> action list" where
  "onCallStart s = (s\<lparr>callStatus := ACTIVE\<rparr>, [DebugLog ''Call started event received''])"

definition onCallEnd :: "AgentState \<Rightarrow> AgentState \<times> action list" where
  "onCallEnd s = (s\<lparr>callStatus := FINISHED\<rparr>, [DebugLog ''Call ended event received''])"

definition onMessage :: "Message \<Rightarrow> AgentState \<Rightarrow> AgentState \<times> action list" where
  "onMessage message s =
     (if msg_type message = ''transcript'' \<and> msg_transcriptType message = Some ''final''
      then
        let newMessage = \<lparr>role = msg_role message, content = msg_transcript message\<rparr>
        in (s\<lparr>messages := messages s @ [newMessage]\<rparr>,
            [DebugLog ''Message received'', DebugLog ''Message content'',
             DebugLog ''Adding message to transcript''])
      else (s, [DebugLog ''Message received'', DebugLog ''Message content'']))"

definition onSpeechStart :: "AgentState \<Rightarrow> AgentState \<times> action list" where
  "onSpeechStart s = (s\<lparr>isSpeaking := True\<rparr>, [DebugLog ''Speech start event received''])"

definition onSpeechEnd :: "AgentState \<Rightarrow> AgentState \<times> action list" where
  "onSpeechEnd s = (s\<lparr>isSpeaking := False\<rparr>, [DebugLog ''Speech end event received''])"

definition onError :: "string \<Rightarrow> AgentState \<Rightarrow> AgentState \<times> action list" where
  "onError error_message s =
     (s, [DebugLog ''Error event received'', ConsoleError ''VAPI Error:''])"

subsection \<open>The second effect: last message, and what happens when the call is over\<close>

text \<open>What the awaited \<open>createFeedback\<close> does: it returns \<open>{success, feedbackId}\<close> or throws.\<close>

datatype feedback_outcome = FeedbackResult bool "string option" | FeedbackThrown

definition handleGenerateFeedback ::
  "AgentProps \<Rightarrow> feedback_outcome \<Rightarrow> SavedMessage list \<Rightarrow> action list" where
  "handleGenerateFeedback props outcome msgs =
     [DebugLog ''Starting feedback generation'', DebugLog ''Messages count'',
      CreateFeedback \<lparr>fp_interviewId = interviewId props, fp_userId = userId props,
        fp_transcript = msgs, fp_feedbackId = feedbackId props\<rparr>] @
     (case outcome of
        FeedbackResult success ident \<Rightarrow>
          DebugLog ''Feedback creation result'' #
          (if success \<and> truthy ident
           then [DebugLog ''Redirecting to feedback page'',
                 RouterPush (''/interview/'' @ interviewId props @ ''/feedback'')]
           else [DebugLog ''Error saving feedback - redirecting to home'', RouterPush ''/''])
      | FeedbackThrown \<Rightarrow>
          [DebugLog ''Error in handleGenerateFeedback'',
           ConsoleError ''Feedback generation error:'', RouterPush ''/''])"

definition second_effect ::
  "AgentProps \<Rightarrow> feedback_outcome \<Rightarrow> AgentState \<Rightarrow> AgentState \<times> action list" where
  "second_effect props outcome s =
     (let (s1, a1) =
            (if length (messages s) > 0
             then (s\<lparr>lastMessage := content (messages s ! (length (messages s) - 1))\<rparr>,
                   [DebugLog ''Setting last message''])
             else (s, []))
      in if callStatus s = FINISHED
         then (if agent_type props = Generate
               then (s1, a1 @ [DebugLog ''Call finished'',
                               DebugLog ''Generate type - redirecting to home'', RouterPush ''/''])
               else (s1, a1 @ [DebugLog ''Call finished'',
                               DebugLog ''Interview type - generating feedback''] @
                          handleGenerateFeedback props outcome (messages s)))
         else (s1, a1))"

subsection \<open>handleCall and handleDisconnect\<close>

text \<open>
  \<open>handleCall\<close> is an async function with two awaits, so it runs in three parts:
  up to the microphone request, from the settled request up to \<open>vapi.start\<close>, and from
  the settled start to the end. What the awaited promises do is given from outside.
\<close>

datatype mic_outcome = MicGranted | MicDenied

text \<open>
  What a catch block can receive. The block interpolates the value into a string and
  gives it to \<open>JSON.stringify\<close>, and either can throw: an \<open>Error\<close> instance carries its
  message and whether \<open>JSON.stringify\<close> accepts it (it refuses a circular structure or a
  BigInt among its properties); any other value that is not a string carries whether it
  can be converted to a string (a symbol cannot) and whether \<open>JSON.stringify\<close> accepts it.
\<close>

datatype thrown = ErrorObject string bool | ThrownString string | ThrownOther bool bool

definition printable :: "thrown \<Rightarrow> bool" where
  "printable e = (case e of ThrownOther p j \<Rightarrow> p | _ \<Rightarrow> True)"

definition serialisable :: "thrown \<Rightarrow> bool" where
  "serialisable e =
     (case e of ErrorObject m j \<Rightarrow> j | ThrownString t \<Rightarrow> True | ThrownOther p j \<Rightarrow> j)"

text \<open>
  What the awaited \<open>vapi.start\<close> does. Its result is only given to \<open>JSON.stringify\<close>, inside
  the try block: \<open>StartResolved None\<close> is a result that is accepted, \<open>StartResolved (Some m)\<close>
  one for which \<open>JSON.stringify\<close> throws a TypeError with message \<open>m\<close>.
\<close>

datatype start_outcome = StartResolved "string option" | StartRejected thrown

definition handleCall_begin :: "action list" where
  "handleCall_begin =
     [DebugLog ''=== Starting call process ==='', DebugLog ''Call type'',
      DebugLog ''Environment variables check:'', DebugLog ''- NEXT_PUBLIC_VAPI_WORKFLOW_ID'',
      GetUserMedia]"

definition errorMessage :: "thrown \<Rightarrow> string" where
  "errorMessage e =
     (case e of ErrorObject m j \<Rightarrow> m | ThrownString t \<Rightarrow> t
      | ThrownOther p j \<Rightarrow> ''Unhandled error. Check console for details.'')"

text \<open>
  The catch block around the start of the call. It clears the timer, logs the error
  three times, the first time interpolated into a string and the third time through
  \<open>JSON.stringify\<close>, and only then writes to the console, resets the status and alerts.
  When the interpolation or \<open>JSON.stringify\<close> throws, the rest of the block is not run.
\<close>

definition handleCall_catch :: "nat \<Rightarrow> thrown \<Rightarrow> AgentState \<Rightarrow> AgentState \<times> action list" where
  "handleCall_catch n e s =
     (if \<not> printable e then (s, [ClearTimeout n, UnhandledRejection])
      else if \<not> serialisable e
      then (s, [ClearTimeout n, DebugLog ''ERROR starting VAPI call'', DebugLog ''Error type'',
                UnhandledRejection])
      else
        (s\<lparr>callStatus := INACTIVE\<rparr>,
         [ClearTimeout n, DebugLog ''ERROR starting VAPI call'', DebugLog ''Error type'',
          DebugLog ''Error object'', ConsoleError ''Error starting VAPI call:''] @
         (case e of
            ErrorObject m j \<Rightarrow>
              [DebugLog ''Error name'', DebugLog ''Error message'', DebugLog ''Error stack'']
          | _ \<Rightarrow> [DebugLog ''Non-Error object thrown'']) @
         [Alert (''Failed to start call: '' @ errorMessage e)]))"

fun join :: "string \<Rightarrow> string list \<Rightarrow> string" where
  "join sep [] = []"
| "join sep [x] = x"
| "join sep (x # y # ys) = x @ sep @ join sep (y # ys)"

definition formatQuestions :: "string list option \<Rightarrow> string \<times> action list" where
  "formatQuestions qs =
     (case qs of
        None \<Rightarrow> ([], [DebugLog ''No questions provided''])
      | Some l \<Rightarrow>
          if length l > 0
          then (join [CHR 0x0A] (map (\<lambda>question. ''- '' @ question) l),
                [DebugLog ''Formatted questions''])
          else ([], [DebugLog ''No questions provided'']))"

text \<open>
  The second part. The result says whether \<open>vapi.start\<close> was called and is awaited
  (then the timer of this invocation is still set). An \<open>Error\<close> made by \<open>new Error\<close>
  has no property of its own that is enumerable, so \<open>JSON.stringify\<close> accepts it; the
  configuration objects logged through \<open>JSON.stringify\<close> hold strings and the constant
  \<open>interviewer\<close>, plain data.
\<close>

definition handleCall_afterMic ::
  "AgentProps \<Rightarrow> Env \<Rightarrow> nat \<Rightarrow> mic_outcome \<Rightarrow> AgentState \<Rightarrow> AgentState \<times> action list \<times> bool" where
  "handleCall_afterMic props env n mic s =
     (case mic of
        MicDenied \<Rightarrow>
          (s, [DebugLog ''Microphone permission error'',
               Alert ''Microphone access is required for the interview. Please grant permission and try again.''],
           False)
      | MicGranted \<Rightarrow>
          let a0 = [DebugLog ''Microphone permission granted'', StopTracks, SetTimeout n];
              s1 = s\<lparr>callStatus := CONNECTING\<rparr>
          in if agent_type props = Generate
             then
               if \<not> truthy (NEXT_PUBLIC_VAPI_WORKFLOW_ID env)
               then
                 let (s2, a2) =
                       handleCall_catch n (ErrorObject ''NEXT_PUBLIC_VAPI_WORKFLOW_ID is not set'' True) s1
                 in (s2, a0 @ [DebugLog ''Starting VAPI with workflow ID''] @ a2, False)
               else
                 (s1, a0 @ [DebugLog ''Starting VAPI with workflow ID'', DebugLog ''Workflow ID'',
                            DebugLog ''Workflow config'', DebugLog ''Testing VAPI connection...'',
                            VapiStart (EnvAssistantId (NEXT_PUBLIC_VAPI_ASSISTANT_ID env))
                              [(''userName'', userName props), (''userid'', userId props)]],
                  True)
             else
               let (formattedQuestions, aq) = formatQuestions (questions props)
               in if interviewer env = None
                  then
                    let (s2, a2) =
                          handleCall_catch n (ErrorObject ''Interviewer configuration is not available'' True) s1
                    in (s2, a0 @ [DebugLog ''Starting VAPI with interviewer config''] @ aq @ a2, False)
                  else
                    (s1, a0 @ [DebugLog ''Starting VAPI with interviewer config''] @ aq @
                           [DebugLog ''Interviewer config'', DebugLog ''Interviewer object'',
                            VapiStart (InterviewerConfig (interviewer env))
                              [(''questions'', formattedQuestions)]],
                     True))"

definition handleCall_afterStart ::
  "AgentProps \<Rightarrow> nat \<Rightarrow> start_outcome \<Rightarrow> AgentState \<Rightarrow> AgentState \<times> action list" where
  "handleCall_afterStart props n outcome s =
     (case outcome of
        StartResolved None \<Rightarrow>
          (s, [DebugLog ''VAPI start result'',
               DebugLog (if agent_type props = Generate
                         then ''VAPI started successfully with workflow ID''
                         else ''VAPI started successfully with interviewer config''),
               ClearTimeout n])
      | StartResolved (Some m) \<Rightarrow> handleCall_catch n (ErrorObject m True) s
      | StartRejected e \<Rightarrow> handleCall_catch n e s)"

text \<open>
  The callback given to \<open>setTimeout\<close>. It reads \<open>callStatus\<close> of the render whose
  \<open>handleCall\<close> was invoked: the value captured by the closure, not the state when the
  timer fires.
\<close>

definition connectTimeout :: "CallStatus \<Rightarrow> AgentState \<Rightarrow> AgentState \<times> action list" where
  "connectTimeout captured s =
     (if captured = CONNECTING
      then (s\<lparr>callStatus := INACTIVE\<rparr>, [DebugLog ''Connection timeout - resetting to inactive''])
      else (s, []))"

definition handleDisconnect :: "bool \<Rightarrow> AgentState \<Rightarrow> AgentState \<times> action list" where
  "handleDisconnect stop_throws s =
     (s\<lparr>callStatus := FINISHED\<rparr>,
      [DebugLog ''Disconnecting call'', VapiStop] @
      (if stop_throws
       then [DebugLog ''Error stopping VAPI'', ConsoleError ''Error stopping VAPI:'']
       else [DebugLog ''VAPI stopped successfully'']))"

subsection \<open>The mounted component as a transition system\<close>

text \<open>
  Besides the React state, the running component has invocations of \<open>handleCall\<close>
  suspended at an await, and timers that are set. \<open>pending_mic\<close> maps an invocation
  waiting for the microphone to the \<open>callStatus\<close> of the render it was invoked in;
  \<open>pending_start\<close> holds the invocations waiting for \<open>vapi.start\<close>; \<open>timers\<close> maps
  a set timer to the \<open>callStatus\<close> its callback captured.
\<close>

record World =
  agent :: AgentState
  pending_mic :: "nat \<rightharpoonup> CallStatus"
  pending_start :: "nat set"
  timers :: "nat \<rightharpoonup> CallStatus"
  next_call :: nat

definition initial_world :: World where
  "initial_world =
     \<lparr>agent = initial_state, pending_mic = Map.empty, pending_start = {},
      timers = Map.empty, next_call = 0\<rparr>"

text \<open>
  What can happen to the mounted component: the six SDK events, a click on the call
  button (rendered while the status is not ACTIVE) or on the end button (rendered while
  it is ACTIVE), a settled microphone request or \<open>vapi.start\<close> of an invocation, and a
  timer that fires.
\<close>

datatype event =
    SdkCallStart
  | SdkCallEnd
  | SdkMessage Message
  | SdkSpeechStart
  | SdkSpeechEnd
  | SdkError string
  | ClickCall
  | MicSettled nat mic_outcome
  | StartSettled nat start_outcome
  | TimeoutFires nat
  | ClickEnd bool

definition on_agent ::
  "(AgentState \<Rightarrow> AgentState \<times> action list) \<Rightarrow> World \<Rightarrow> World \<times> action list" where
  "on_agent h w = (let (s, a) = h (agent w) in (w\<lparr>agent := s\<rparr>, a))"

fun handle :: "AgentProps \<Rightarrow> Env \<Rightarrow> event \<Rightarrow> World \<Rightarrow> World \<times> action list" where
  "handle props env SdkCallStart w = on_agent onCallStart w"
| "handle props env SdkCallEnd w = on_agent onCallEnd w"
| "handle props env (SdkMessage m) w = on_agent (onMessage m) w"
| "handle props env SdkSpeechStart w = on_agent onSpeechStart w"
| "handle props env SdkSpeechEnd w = on_agent onSpeechEnd w"
| "handle props env (SdkError e) w = on_agent (onError e) w"
| "handle props env ClickCall w =
     (if callStatus (agent w) \<noteq> ACTIVE
      then (w\<lparr>pending_mic := (pending_mic w)(next_call w \<mapsto> callStatus (agent w)),
              next_call := Suc (next_call w)\<rparr>,
            handleCall_begin)
      else (w, []))"
| "handle props env (MicSettled n mic) w =
     (case pending_mic w n of
        None \<Rightarrow> (w, [])
      | Some captured \<Rightarrow>
          let (s, a, started) = handleCall_afterMic props env n mic (agent w)
          in (w\<lparr>agent := s,
                pending_mic := (pending_mic w)(n := None),
                pending_start := (if started then insert n (pending_start w) else pending_start w),
                timers := (if started then (timers w)(n \<mapsto> captured) else timers w)\<rparr>,
              a))"
| "handle props env (StartSettled n outcome) w =
     (if n \<in> pending_start w
      then
        let (s, a) = handleCall_afterStart props n outcome (agent w)
        in (w\<lparr>agent := s, pending_start := pending_start w - {n},
              timers := (timers w)(n := None)\<rparr>, a)
      else (w, []))"
| "handle props env (TimeoutFires n) w =
     (case timers w n of
        None \<Rightarrow> (w, [])
      | Some captured \<Rightarrow>
          let (s, a) = connectTimeout captured (agent w)
          in (w\<lparr>agent := s, timers := (timers w)(n := None)\<rparr>, a))"
| "handle props env (ClickEnd stop_throws) w =
     (if callStatus (agent w) = ACTIVE then on_agent (handleDisconnect stop_throws) w
      else (w, []))"

text \<open>
  One step: the handler runs, the component renders, and the second effect runs when one
  of its dependencies changed (of these only \<open>messages\<close> and \<open>callStatus\<close> are state;
  \<open>setMessages\<close> always installs a new array). The outcome of \<open>createFeedback\<close>,
  should the effect call it, is given from outside.
\<close>

definition step ::
  "AgentProps \<Rightarrow> Env \<Rightarrow> feedback_outcome \<Rightarrow> event \<Rightarrow> World \<Rightarrow> World \<times> action list" where
  "step props env outcome ev w =
     (let (w1, a1) = handle props env ev w
      in if messages (agent w1) \<noteq> messages (agent w) \<or> callStatus (agent w1) \<noteq> callStatus (agent w)
         then (let (s2, a2) = second_effect props outcome (agent w1)
               in (w1\<lparr>agent := s2\<rparr>, a1 @ a2))
         else (w1, a1))"

fun run ::
  "AgentProps \<Rightarrow> Env \<Rightarrow> (event \<times> feedback_outcome) list \<Rightarrow> World \<Rightarrow> World" where
  "run props env [] w = w"
| "run props env ((ev, outcome) # evs) w = run props env evs (fst (step props env outcome ev w))"

subsection \<open>The first effect: registering and removing the listeners\<close>

text \<open>
  The calls of the \<open>g\<close>-th run of the first effect, and of the cleanup it returns
  (with the SDK object \<open>vapi\<close> defined, without which \<open>vapi.on\<close> cannot be called).
\<close>

definition mount_effect :: "nat \<Rightarrow> action list" where
  "mount_effect g =
     [DebugLog ''Component mounted'', DebugLog ''Props'', DebugLog ''InterviewId'',
      DebugLog ''Questions'', DebugLog ''VAPI is initialized successfully'',
      VapiOn ''call-start'' (g, H_onCallStart),
      VapiOn ''call-end'' (g, H_onCallEnd),
      VapiOn ''message'' (g, H_onMessage),
      VapiOn ''speech-start'' (g, H_onSpeechStart),
      VapiOn ''speech-end'' (g, H_onSpeechEnd),
      VapiOn ''error'' (g, H_onError)]"

definition cleanup :: "nat \<Rightarrow> action list" where
  "cleanup g =
     [DebugLog ''Cleaning up event listeners'',
      VapiOff ''call-start'' (g, H_onCallStart),
      VapiOff ''call-end'' (g, H_onCallEnd),
      VapiOff ''message'' (g, H_onMessage),
      VapiOff ''speech-start'' (g, H_onSpeechStart),
      VapiOff ''speech-end'' (g, H_onSpeechEnd),
      VapiOff ''error'' (g, H_onError)]"

text \<open>
  Modelled from the spec: the listener registry of the voice SDK behind \<open>vapi.on\<close> and
  \<open>vapi.off\<close>, which is not in the sources. It is an event emitter: each event name has
  the list of its listeners, \<open>on\<close> adds one at the end and \<open>off\<close> removes the most
  recently added occurrence of the given function reference.
\<close>

type_synonym registry = "string \<Rightarrow> listener list"

fun remove_last :: "'a \<Rightarrow> 'a list \<Rightarrow> 'a list" where
  "remove_last x xs = rev (remove1 x (rev xs))"

fun sdk_apply :: "action \<Rightarrow> registry \<Rightarrow> registry" where
  "sdk_apply (VapiOn name l) r = r(name := r name @ [l])"
| "sdk_apply (VapiOff name l) r = r(name := remove_last l (r name))"
| "sdk_apply _ r = r"

definition sdk_run :: "action list \<Rightarrow> registry \<Rightarrow> registry" where
  "sdk_run acts r = fold sdk_apply acts r"

section \<open>The validation schema of the sign-in and sign-up forms\<close>

datatype FormType = SignIn | SignUp

text \<open>A submission as the schema receives it; a field that is absent is \<open>None\<close>.\<close>

record FormInput =
  name :: "string option"
  email :: "string option"
  password :: "string option"

text \<open>
  Modelled from the spec: the combinators of the validation library that
  \<open>authFormSchema\<close> is built from (\<open>z.string().min\<close>, \<open>z.string().optional\<close>,
  \<open>z.string().email\<close>, \<open>z.object\<close>), which are not in the sources. The spec leaves
  form validation out, so they follow the messages the schema itself gives them ("must
  be at least 3 characters", "a valid email address"). Each gives the messages of the
  issues it finds, none for a value it accepts; a required string that is absent is an
  issue of its own. What counts as a valid email address is the library's pattern, a
  parameter here. The length of a string is the number of its code units.
\<close>

definition z_string_min :: "nat \<Rightarrow> string \<Rightarrow> string option \<Rightarrow> string list" where
  "z_string_min n msg v =
     (case v of None \<Rightarrow> [''Required''] | Some s \<Rightarrow> if length s < n then [msg] else [])"

definition z_string_optional :: "string option \<Rightarrow> string list" where
  "z_string_optional v = []"

definition z_string_email :: "(string \<Rightarrow> bool) \<Rightarrow> string \<Rightarrow> string option \<Rightarrow> string list" where
  "z_string_email is_email msg v =
     (case v of None \<Rightarrow> [''Required''] | Some s \<Rightarrow> if is_email s then [] else [msg])"

text \<open>
  \<open>z.object\<close>: the issues of all fields; the parse succeeds with the input when there is
  none. The two AuthForm files differ in the shortest password only.
\<close>

definition z_object ::
  "(string option \<Rightarrow> string list) \<Rightarrow> (string option \<Rightarrow> string list) \<Rightarrow>
   (string option \<Rightarrow> string list) \<Rightarrow> FormInput \<Rightarrow> string list + FormInput" where
  "z_object name_schema email_schema password_schema inp =
     (let issues = name_schema (name inp) @ email_schema (email inp) @ password_schema (password inp)
      in if issues = [] then Inr inp else Inl issues)"

text \<open>\<open>authFormSchema\<close> of \<open>src/components/AuthForm.tsx\<close>.\<close>

definition authFormSchema ::
  "(string \<Rightarrow> bool) \<Rightarrow> FormType \<Rightarrow> FormInput \<Rightarrow> string list + FormInput" where
  "authFormSchema is_email t =
     z_object
       (if t = SignUp then z_string_min 3 ''Name must be at least 3 characters''
        else z_string_optional)
       (z_string_email is_email ''Please enter a valid email address'')
       (z_string_min 8 ''Password must be at least 8 characters'')"

text \<open>\<open>authFormSchema\<close> of the second AuthForm file (\<open>src/unnamed/part_001\<close>).\<close>

definition authFormSchema_part_001 ::
  "(string \<Rightarrow> bool) \<Rightarrow> FormType \<Rightarrow> FormInput \<Rightarrow> string list + FormInput" where
  "authFormSchema_part_001 is_email t =
     z_object
       (if t = SignUp then z_string_min 3 ''Name must be at least 3 characters''
        else z_string_optional)
       (z_string_email is_email ''Please enter a valid email address'')
       (z_string_min 6 ''Password must be at least 6 characters'')"

section \<open>Sample inputs\<close>

text \<open>Concrete inputs at which the theorems below are instantiated.\<close>

definition sample_props :: AgentProps where
  "sample_props =
     \<lparr>userName = ''Ada'', userId = ''u1'', interviewId = ''i7'', feedbackId = None,
      agent_type = Interview, questions = Some [''Why?'', ''How?'']\<rparr>"

definition sample_env :: Env where
  "sample_env =
     \<lparr>NEXT_PUBLIC_VAPI_WORKFLOW_ID = Some ''wf-1'', NEXT_PUBLIC_VAPI_ASSISTANT_ID = Some ''as-2'',
      interviewer = Some ''interviewer''\<rparr>"

definition sample_message :: Message where
  "sample_message =
     \<lparr>msg_type = ''transcript'', msg_transcriptType = Some ''final'', msg_role = User,
      msg_transcript = ''hello''\<rparr>"

text \<open>
  A call that connects: the click, the microphone granted, the SDK's call-start, the
  start promise resolved, and one final transcript message.
\<close>

definition sample_call :: "(event \<times> feedback_outcome) list" where
  "sample_call =
     [(ClickCall, FeedbackThrown), (MicSettled 0 MicGranted, FeedbackThrown),
      (SdkCallStart, FeedbackThrown), (StartSettled 0 (StartResolved None), FeedbackThrown),
      (SdkMessage sample_message, FeedbackThrown)]"

section \<open>Properties of the session agent\<close>

subsection \<open>What a step does to the transcript and to the status\<close>

lemma second_effect_messages: "messages (fst (second_effect props outcome s)) = messages s"
  by (simp add: second_effect_def Let_def)

lemma second_effect_callStatus: "callStatus (fst (second_effect props outcome s)) = callStatus s"
  by (simp add: second_effect_def Let_def)

lemma second_effect_lastMessage:
  "lastMessage (fst (second_effect props outcome s)) =
     (if messages s = [] then lastMessage s else content (last (messages s)))"
  by (simp add: second_effect_def Let_def last_conv_nth)

lemma step_messages:
  "messages (agent (fst (step props env outcome ev w))) = messages (agent (fst (handle props env ev w)))"
  by (simp add: step_def Let_def split_beta second_effect_messages)

lemma step_callStatus:
  "callStatus (agent (fst (step props env outcome ev w))) = callStatus (agent (fst (handle props env ev w)))"
  by (simp add: step_def Let_def split_beta second_effect_callStatus)

lemma onMessage_messages:
  "messages (fst (onMessage m s)) =
     (if msg_type m = ''transcript'' \<and> msg_transcriptType m = Some ''final''
      then messages s @ [\<lparr>role = msg_role m, content = msg_transcript m\<rparr>]
      else messages s)"
  by (simp add: onMessage_def Let_def)

lemma handleCall_afterMic_messages:
  "messages (fst (handleCall_afterMic props env n mic s)) = messages s"
  by (simp add: handleCall_afterMic_def handleCall_catch_def Let_def split_beta split: mic_outcome.splits)

lemma handleCall_afterStart_messages:
  "messages (fst (handleCall_afterStart props n outcome s)) = messages s"
  by (simp add: handleCall_afterStart_def handleCall_catch_def
      split: start_outcome.splits option.splits)

lemma handle_messages:
  "messages (agent (fst (handle props env ev w))) =
     (case ev of SdkMessage m \<Rightarrow> messages (fst (onMessage m (agent w))) | _ \<Rightarrow> messages (agent w))"
  by (cases ev)
     (simp_all add: on_agent_def split_beta Let_def onCallStart_def onCallEnd_def
        onSpeechStart_def onSpeechEnd_def onError_def connectTimeout_def handleDisconnect_def
        handleCall_afterMic_messages handleCall_afterStart_messages split: option.splits)

lemma step_prefix:
  "prefix (messages (agent w)) (messages (agent (fst (step props env outcome ev w))))"
  by (simp add: step_messages handle_messages onMessage_messages split: event.splits)

lemma run_prefix:
  "prefix (messages (agent w)) (messages (agent (run props env evs w)))"
proof (induction evs arbitrary: w)
  case Nil
  show ?case by simp
next
  case (Cons x evs)
  obtain ev outcome where x: "x = (ev, outcome)" by (cases x)
  have "prefix (messages (agent w)) (messages (agent (fst (step props env outcome ev w))))"
    by (rule step_prefix)
  also have "prefix \<dots> (messages (agent (run props env evs (fst (step props env outcome ev w)))))"
    by (rule Cons.IH)
  finally show ?case by (simp add: x)
qed

lemma handle_callStatus:
  "callStatus (agent (fst (handle props env ev w))) =
     (case ev of
        SdkCallStart \<Rightarrow> ACTIVE
      | SdkCallEnd \<Rightarrow> FINISHED
      | ClickEnd t \<Rightarrow> (if callStatus (agent w) = ACTIVE then FINISHED else callStatus (agent w))
      | MicSettled n MicGranted \<Rightarrow>
          (if pending_mic w n = None then callStatus (agent w)
           else if (if agent_type props = Generate then truthy (NEXT_PUBLIC_VAPI_WORKFLOW_ID env)
                    else interviewer env \<noteq> None)
           then CONNECTING else INACTIVE)
      | StartSettled n (StartRejected e) \<Rightarrow>
          (if n \<in> pending_start w \<and> printable e \<and> serialisable e then INACTIVE
           else callStatus (agent w))
      | StartSettled n (StartResolved (Some m)) \<Rightarrow>
          (if n \<in> pending_start w then INACTIVE else callStatus (agent w))
      | TimeoutFires n \<Rightarrow>
          (if timers w n = Some CONNECTING then INACTIVE else callStatus (agent w))
      | _ \<Rightarrow> callStatus (agent w))"
  by (cases ev)
     (auto simp add: on_agent_def split_beta Let_def onCallStart_def onCallEnd_def
        onSpeechStart_def onSpeechEnd_def onError_def onMessage_def connectTimeout_def
        handleDisconnect_def handleCall_afterMic_def handleCall_afterStart_def
        handleCall_catch_def printable_def serialisable_def
        split: option.splits mic_outcome.splits start_outcome.splits)

lemma handleGenerateFeedback_calls:
  "filter is_CreateFeedback (handleGenerateFeedback props outcome msgs) =
     [CreateFeedback \<lparr>fp_interviewId = interviewId props, fp_userId = userId props,
        fp_transcript = msgs, fp_feedbackId = feedbackId props\<rparr>]"
  by (simp add: handleGenerateFeedback_def split: feedback_outcome.splits)

lemma handleGenerateFeedback_redirect:
  "filter is_RouterPush (handleGenerateFeedback props outcome msgs) =
     [RouterPush
        (case outcome of
           FeedbackResult success ident \<Rightarrow>
             if success \<and> truthy ident then ''/interview/'' @ interviewId props @ ''/feedback''
             else ''/''
         | FeedbackThrown \<Rightarrow> ''/'')]"
  by (simp add: handleGenerateFeedback_def split: feedback_outcome.splits)

lemma second_effect_finished_interview:
  assumes "agent_type props = Interview" and "callStatus s = FINISHED"
  shows "filter is_CreateFeedback (snd (second_effect props outcome s)) =
           filter is_CreateFeedback (handleGenerateFeedback props outcome (messages s))"
    and "filter is_RouterPush (snd (second_effect props outcome s)) =
           filter is_RouterPush (handleGenerateFeedback props outcome (messages s))"
  using assms by (simp_all add: second_effect_def Let_def)

lemma handle_quiet:
  "filter is_CreateFeedback (snd (handle props env ev w)) = []"
  "filter is_RouterPush (snd (handle props env ev w)) = []"
  by (cases ev;
      simp add: on_agent_def split_beta Let_def onCallStart_def onCallEnd_def
        onSpeechStart_def onSpeechEnd_def onError_def onMessage_def connectTimeout_def
        handleDisconnect_def handleCall_afterMic_def handleCall_afterStart_def
        handleCall_catch_def handleCall_begin_def formatQuestions_def
        split: option.splits mic_outcome.splits start_outcome.splits thrown.splits)+

lemma step_effect_runs:
  assumes "callStatus (agent (fst (handle props env ev w))) \<noteq> callStatus (agent w)"
  shows "snd (step props env outcome ev w) =
           snd (handle props env ev w) @
           snd (second_effect props outcome (agent (fst (handle props env ev w))))"
  using assms by (simp add: step_def Let_def split_beta)

lemma sample_call_world:
  "agent (run sample_props sample_env sample_call initial_world) =
     \<lparr>callStatus = ACTIVE, messages = [\<lparr>role = User, content = ''hello''\<rparr>],
      isSpeaking = False, lastMessage = ''hello''\<rparr>"
  by (simp add: sample_call_def sample_props_def sample_env_def sample_message_def
      initial_world_def initial_state_def step_def on_agent_def Let_def
      onCallStart_def onMessage_def handleCall_afterMic_def handleCall_afterStart_def
      formatQuestions_def second_effect_def)

lemmas handler_defs =
  on_agent_def onCallStart_def onCallEnd_def onMessage_def onSpeechStart_def onSpeechEnd_def
  onError_def handleCall_begin_def handleCall_afterMic_def handleCall_afterStart_def
  handleCall_catch_def connectTimeout_def handleDisconnect_def formatQuestions_def
  errorMessage_def truthy_def printable_def serialisable_def

lemmas sample_defs =
  sample_props_def sample_env_def sample_message_def sample_call_def
  initial_world_def initial_state_def

lemma connecting_world:
  "fst (step sample_props sample_env outcome2 (MicSettled 0 MicGranted)
          (fst (step sample_props sample_env outcome1 ClickCall initial_world))) =
     \<lparr>agent = initial_state\<lparr>callStatus := CONNECTING\<rparr>,
      pending_mic = Map.empty, pending_start = {0},
      timers = [0 \<mapsto> INACTIVE], next_call = Suc 0\<rparr>"
  by (simp add: step_def Let_def second_effect_def handler_defs sample_defs)

lemma connecting_run:
  "run sample_props sample_env
      [(ClickCall, outcome1), (MicSettled 0 MicGranted, outcome2)] initial_world =
     \<lparr>agent = initial_state\<lparr>callStatus := CONNECTING\<rparr>,
      pending_mic = Map.empty, pending_start = {0},
      timers = [0 \<mapsto> INACTIVE], next_call = Suc 0\<rparr>"
  by (simp add: connecting_world)

lemma run_snoc:
  "run props env (evs @ [(ev, outcome)]) w = fst (step props env outcome ev (run props env evs w))"
  by (induction evs arbitrary: w) auto

lemma step_no_change:
  assumes "agent (fst (handle props env ev w)) = agent w"
  shows "step props env outcome ev w = handle props env ev w"
  using assms by (simp add: step_def Let_def split_beta)

lemma step_lastMessage_inv:
  assumes "messages (agent w) \<noteq> [] \<longrightarrow> lastMessage (agent w) = content (last (messages (agent w)))"
  shows "messages (agent (fst (step props env outcome ev w))) \<noteq> [] \<longrightarrow>
         lastMessage (agent (fst (step props env outcome ev w))) =
           content (last (messages (agent (fst (step props env outcome ev w)))))"
proof (cases "messages (agent (fst (handle props env ev w))) \<noteq> messages (agent w)
              \<or> callStatus (agent (fst (handle props env ev w))) \<noteq> callStatus (agent w)")
  case True
  then have "agent (fst (step props env outcome ev w)) =
      fst (second_effect props outcome (agent (fst (handle props env ev w))))"
    by (simp add: step_def Let_def split_beta)
  then show ?thesis
    by (simp add: second_effect_lastMessage second_effect_messages)
next
  case False
  then have same: "step props env outcome ev w = handle props env ev w"
    by (simp add: step_def Let_def split_beta)
  have "lastMessage (agent (fst (handle props env ev w))) = lastMessage (agent w)"
    by (cases ev)
       (auto simp add: on_agent_def split_beta Let_def onCallStart_def onCallEnd_def
          onSpeechStart_def onSpeechEnd_def onError_def onMessage_def connectTimeout_def
          handleDisconnect_def handleCall_afterMic_def handleCall_afterStart_def
          handleCall_catch_def
          split: option.splits mic_outcome.splits start_outcome.splits)
  with False assms show ?thesis
    by (simp add: same)
qed

lemma run_lastMessage_inv:
  assumes "messages (agent w) \<noteq> [] \<longrightarrow> lastMessage (agent w) = content (last (messages (agent w)))"
  shows "messages (agent (run props env evs w)) \<noteq> [] \<longrightarrow>
         lastMessage (agent (run props env evs w)) =
           content (last (messages (agent (run props env evs w))))"
  using assms
proof (induction evs arbitrary: w)
  case Nil
  then show ?case by simp
next
  case (Cons x evs)
  obtain ev outcome where x: "x = (ev, outcome)" by (cases x)
  show ?case
    using Cons.IH [OF step_lastMessage_inv [OF Cons.prems, of props env outcome ev]]
    by (simp add: x)
qed

lemma remove_last_snoc: "remove_last x (xs @ [x]) = xs"
  by simp

lemma mount_then_cleanup: "sdk_run (cleanup g) (sdk_run (mount_effect g) r) = r"
  by (rule ext) (simp add: sdk_run_def mount_effect_def cleanup_def)

lemmas schema_defs =
  authFormSchema_def authFormSchema_part_001_def z_object_def z_string_min_def
  z_string_optional_def z_string_email_def

lemma step_actions:
  "snd (step props env outcome ev w) =
     snd (handle props env ev w) @
     (if messages (agent (fst (handle props env ev w))) \<noteq> messages (agent w)
         \<or> callStatus (agent (fst (handle props env ev w))) \<noteq> callStatus (agent w)
      then snd (second_effect props outcome (agent (fst (handle props env ev w)))) else [])"
  by (simp add: step_def Let_def split_beta)

lemma second_effect_not_finished:
  "callStatus s \<noteq> FINISHED \<Longrightarrow>
     snd (second_effect props outcome s) =
       (if messages s = [] then [] else [DebugLog ''Setting last message''])"
  by (simp add: second_effect_def Let_def)


lemma handle_MicGranted_throw:
  assumes "pending_mic w n \<noteq> None"
    and "\<not> (if agent_type props = Generate then truthy (NEXT_PUBLIC_VAPI_WORKFLOW_ID env)
            else interviewer env \<noteq> None)"
  shows "callStatus (agent (fst (handle props env (MicSettled n MicGranted) w))) = INACTIVE"
    and "DebugLog ''ERROR starting VAPI call'' \<in> set (snd (handle props env (MicSettled n MicGranted) w))"
    and "filter is_ConsoleError (snd (handle props env (MicSettled n MicGranted) w)) =
           [ConsoleError ''Error starting VAPI call:'']"
    and "filter is_Alert (snd (handle props env (MicSettled n MicGranted) w)) =
           [Alert (''Failed to start call: '' @
              (if agent_type props = Generate then ''NEXT_PUBLIC_VAPI_WORKFLOW_ID is not set''
               else ''Interviewer configuration is not available''))]"
    and "filter is_RouterPush (snd (handle props env (MicSettled n MicGranted) w)) = []"
    and "filter is_VapiStart (snd (handle props env (MicSettled n MicGranted) w)) = []"
  using assms
  by (auto simp add: handleCall_afterMic_def handleCall_catch_def printable_def serialisable_def
      errorMessage_def formatQuestions_def Let_def split_beta split: option.splits if_splits)

lemma handle_StartRejected:
  assumes "n \<in> pending_start w" and "printable t" and "serialisable t"
  shows "callStatus (agent (fst (handle props env (StartSettled n (StartRejected t)) w))) = INACTIVE"
    and "DebugLog ''ERROR starting VAPI call''
           \<in> set (snd (handle props env (StartSettled n (StartRejected t)) w))"
    and "filter is_ConsoleError (snd (handle props env (StartSettled n (StartRejected t)) w)) =
           [ConsoleError ''Error starting VAPI call:'']"
    and "filter is_Alert (snd (handle props env (StartSettled n (StartRejected t)) w)) =
           [Alert (''Failed to start call: '' @ errorMessage t)]"
    and "filter is_RouterPush (snd (handle props env (StartSettled n (StartRejected t)) w)) = []"
  using assms
  by (auto simp add: handleCall_afterStart_def handleCall_catch_def split_beta split: thrown.splits)

lemma step_to_inactive:
  assumes "callStatus (agent (fst (handle props env ev w))) = INACTIVE"
  shows "callStatus (agent (fst (step props env outcome ev w))) = INACTIVE"
    and "filter is_ConsoleError (snd (step props env outcome ev w)) =
           filter is_ConsoleError (snd (handle props env ev w))"
    and "filter is_Alert (snd (step props env outcome ev w)) =
           filter is_Alert (snd (handle props env ev w))"
    and "filter is_RouterPush (snd (step props env outcome ev w)) =
           filter is_RouterPush (snd (handle props env ev w))"
    and "filter is_VapiStart (snd (step props env outcome ev w)) =
           filter is_VapiStart (snd (handle props env ev w))"
    and "a \<in> set (snd (handle props env ev w)) \<Longrightarrow> a \<in> set (snd (step props env outcome ev w))"
  using assms
  by (simp_all add: step_callStatus step_actions second_effect_not_finished)

lemma finished_by:
  assumes "callStatus (agent w) \<noteq> FINISHED"
    and "callStatus (agent (fst (handle props env ev w))) = FINISHED"
  shows "ev = SdkCallEnd \<or> (\<exists>b. ev = ClickEnd b)"
proof -
  note s = assms(2) [unfolded handle_callStatus]
  show ?thesis
    using assms(1) s
    by (cases ev)
       (auto split: mic_outcome.splits start_outcome.splits option.splits if_splits)
qed

lemma handle_finish_no_alert:
  assumes "callStatus (agent w) \<noteq> FINISHED"
    and "callStatus (agent (fst (handle props env ev w))) = FINISHED"
  shows "filter is_Alert (snd (handle props env ev w)) = []"
  using finished_by [OF assms]
  by (auto simp add: on_agent_def onCallEnd_def handleDisconnect_def split_beta)

lemma handleGenerateFeedback_failed:
  "filter is_Alert (handleGenerateFeedback props outcome msgs) = []"
  "DebugLog ''Error in handleGenerateFeedback'' \<in> set (handleGenerateFeedback props FeedbackThrown msgs)"
  "ConsoleError ''Feedback generation error:'' \<in> set (handleGenerateFeedback props FeedbackThrown msgs)"
  "\<not> (success \<and> truthy ident) \<Longrightarrow>
     DebugLog ''Error saving feedback - redirecting to home''
       \<in> set (handleGenerateFeedback props (FeedbackResult success ident) msgs)"
  by (simp_all add: handleGenerateFeedback_def split: feedback_outcome.splits)

lemma step_finish_interview:
  assumes "agent_type props = Interview"
    and "callStatus (agent w) \<noteq> FINISHED"
    and "callStatus (agent (fst (step props env outcome ev w))) = FINISHED"
  shows "filter is_Alert (snd (step props env outcome ev w)) = []"
    and "filter is_RouterPush (snd (step props env outcome ev w)) =
           filter is_RouterPush
             (handleGenerateFeedback props outcome (messages (agent (fst (handle props env ev w)))))"
    and "set (handleGenerateFeedback props outcome (messages (agent (fst (handle props env ev w)))))
           \<subseteq> set (snd (step props env outcome ev w))"
proof -
  let ?w1 = "fst (handle props env ev w)"
  have fin: "callStatus (agent ?w1) = FINISHED"
    using assms(3) by (simp add: step_callStatus)
  with assms(2) have changed: "callStatus (agent ?w1) \<noteq> callStatus (agent w)"
    by simp
  have acts: "snd (step props env outcome ev w) =
      snd (handle props env ev w) @ snd (second_effect props outcome (agent ?w1))"
    by (rule step_effect_runs [OF changed])
  have eff: "snd (second_effect props outcome (agent ?w1)) =
      (if messages (agent ?w1) = [] then [] else [DebugLog ''Setting last message'']) @
      [DebugLog ''Call finished'', DebugLog ''Interview type - generating feedback''] @
      handleGenerateFeedback props outcome (messages (agent ?w1))"
    using assms(1) fin by (simp add: second_effect_def Let_def)
  show "filter is_Alert (snd (step props env outcome ev w)) = []"
    by (simp add: acts eff handle_finish_no_alert [OF assms(2) fin] handleGenerateFeedback_failed(1))
  show "filter is_RouterPush (snd (step props env outcome ev w)) =
           filter is_RouterPush (handleGenerateFeedback props outcome (messages (agent ?w1)))"
    by (simp add: acts eff handle_quiet)
  show "set (handleGenerateFeedback props outcome (messages (agent ?w1)))
           \<subseteq> set (snd (step props env outcome ev w))"
    by (auto simp add: acts eff)
qed

lemma clicked_world:
  "fst (step props env outcome ClickCall initial_world) =
     initial_world\<lparr>pending_mic := [0 \<mapsto> INACTIVE], next_call := Suc 0\<rparr>"
  by (simp add: step_def Let_def initial_world_def initial_state_def)

lemma handleCall_catch_escapes:
  assumes "\<not> (printable t \<and> serialisable t)"
  shows "fst (handleCall_catch n t s) = s"
    and "filter is_Alert (snd (handleCall_catch n t s)) = []"
    and "filter is_ConsoleError (snd (handleCall_catch n t s)) = []"
    and "UnhandledRejection \<in> set (snd (handleCall_catch n t s))"
  using assms by (auto simp add: handleCall_catch_def)

lemma handleCall_afterStart_unserialisable_result:
  "handleCall_afterStart props n (StartResolved (Some m)) s =
     handleCall_catch n (ErrorObject m True) s"
  by (simp add: handleCall_afterStart_def)

subsection \<open>The transcript\<close>

text \<open>
  Claim C2. The transcript is an append-only accumulator. The message handler appends
  exactly one entry \<open>{role, content}\<close> at the end of \<open>messages\<close> when the incoming
  message has type "transcript" and transcriptType "final", and leaves the array as it
  is for every other message. No step of the component, and so no run, modifies,
  reorders or removes an entry already stored: the old array is a prefix of the new one.
\<close>

theorem transcript_append_only:
  "messages (fst (onMessage m s)) =
     (if msg_type m = ''transcript'' \<and> msg_transcriptType m = Some ''final''
      then messages s @ [\<lparr>role = msg_role m, content = msg_transcript m\<rparr>]
      else messages s)
   \<and> prefix (messages (agent w)) (messages (agent (fst (step props env outcome ev w))))
   \<and> prefix (messages (agent w)) (messages (agent (run props env evs w)))"
  by (simp add: onMessage_messages step_prefix run_prefix)

theorem transcript_append_only_witness:
  "messages (fst (onMessage sample_message
      (agent (run sample_props sample_env sample_call initial_world)))) =
     [\<lparr>role = User, content = ''hello''\<rparr>, \<lparr>role = User, content = ''hello''\<rparr>]
   \<and> messages (fst (onMessage (sample_message\<lparr>msg_transcriptType := Some ''partial''\<rparr>)
      (agent (run sample_props sample_env sample_call initial_world)))) =
     [\<lparr>role = User, content = ''hello''\<rparr>]
   \<and> prefix [\<lparr>role = User, content = ''hello''\<rparr>]
      (messages (agent (fst (step sample_props sample_env FeedbackThrown (SdkMessage sample_message)
         (run sample_props sample_env sample_call initial_world)))))"
  using
    transcript_append_only [of sample_message
      "agent (run sample_props sample_env sample_call initial_world)"
      "run sample_props sample_env sample_call initial_world"
      sample_props sample_env FeedbackThrown "SdkMessage sample_message" "[]"]
    transcript_append_only [of "sample_message\<lparr>msg_transcriptType := Some ''partial''\<rparr>"
      "agent (run sample_props sample_env sample_call initial_world)"
      "run sample_props sample_env sample_call initial_world"
      sample_props sample_env FeedbackThrown "SdkMessage sample_message" "[]"]
  by (simp add: sample_call_world sample_message_def)

subsection \<open>Feedback when the call is over\<close>

text \<open>
  Claim C1. For an agent of type 'interview', in the step in which the call status
  becomes FINISHED the agent calls \<open>createFeedback\<close> exactly once, with the accumulated
  transcript messages, the interviewId and the userId (and the feedbackId prop). It then
  redirects exactly once: to \<open>/interview/{interviewId}/feedback\<close> when the result has
  success true and a feedback id (a defined, non-empty string, as the truthiness test of
  the code reads it), and to the home page "/" in every other case (unsuccessful
  result, missing id, or thrown error).
\<close>

theorem feedback_on_finish:
  assumes "agent_type props = Interview"
    and "callStatus (agent w) \<noteq> FINISHED"
    and "callStatus (agent (fst (step props env outcome ev w))) = FINISHED"
  shows "filter is_CreateFeedback (snd (step props env outcome ev w)) =
           [CreateFeedback \<lparr>fp_interviewId = interviewId props, fp_userId = userId props,
              fp_transcript = messages (agent (fst (step props env outcome ev w))),
              fp_feedbackId = feedbackId props\<rparr>]
         \<and> filter is_RouterPush (snd (step props env outcome ev w)) =
           [RouterPush
              (case outcome of
                 FeedbackResult success ident \<Rightarrow>
                   if success \<and> truthy ident
                   then ''/interview/'' @ interviewId props @ ''/feedback'' else ''/''
               | FeedbackThrown \<Rightarrow> ''/'')]"
proof -
  let ?w1 = "fst (handle props env ev w)"
  have fin: "callStatus (agent ?w1) = FINISHED"
    using assms(3) by (simp add: step_callStatus)
  with assms(2) have changed: "callStatus (agent ?w1) \<noteq> callStatus (agent w)"
    by simp
  have acts: "snd (step props env outcome ev w) =
      snd (handle props env ev w) @ snd (second_effect props outcome (agent ?w1))"
    by (rule step_effect_runs [OF changed])
  have msgs: "messages (agent (fst (step props env outcome ev w))) = messages (agent ?w1)"
    by (rule step_messages)
  show ?thesis
    by (simp add: acts msgs handle_quiet second_effect_finished_interview [OF assms(1) fin]
        handleGenerateFeedback_calls handleGenerateFeedback_redirect)
qed

theorem feedback_on_finish_witness:
  "agent_type sample_props = Interview
   \<and> callStatus (agent (run sample_props sample_env sample_call initial_world)) \<noteq> FINISHED
   \<and> callStatus (agent (fst (step sample_props sample_env (FeedbackResult True (Some ''f1''))
        SdkCallEnd (run sample_props sample_env sample_call initial_world)))) = FINISHED
   \<and> filter is_CreateFeedback (snd (step sample_props sample_env (FeedbackResult True (Some ''f1''))
        SdkCallEnd (run sample_props sample_env sample_call initial_world))) =
       [CreateFeedback \<lparr>fp_interviewId = ''i7'', fp_userId = ''u1'',
          fp_transcript = [\<lparr>role = User, content = ''hello''\<rparr>], fp_feedbackId = None\<rparr>]
   \<and> filter is_RouterPush (snd (step sample_props sample_env (FeedbackResult True (Some ''f1''))
        SdkCallEnd (run sample_props sample_env sample_call initial_world))) =
       [RouterPush ''/interview/i7/feedback'']"
proof -
  let ?w = "run sample_props sample_env sample_call initial_world"
  have h1: "agent_type sample_props = Interview"
    by (simp add: sample_props_def)
  have h2: "callStatus (agent ?w) \<noteq> FINISHED"
    by (simp add: sample_call_world)
  have h3: "callStatus (agent (fst (step sample_props sample_env (FeedbackResult True (Some ''f1''))
        SdkCallEnd ?w))) = FINISHED"
    by (simp add: step_callStatus on_agent_def onCallEnd_def)
  have m: "messages (agent (fst (step sample_props sample_env (FeedbackResult True (Some ''f1''))
        SdkCallEnd ?w))) = [\<lparr>role = User, content = ''hello''\<rparr>]"
    by (simp add: step_messages on_agent_def onCallEnd_def sample_call_world)
  show ?thesis
    using feedback_on_finish [OF h1 h2 h3] h1 h2 h3
    by (simp add: m) (simp add: sample_props_def truthy_def)
qed

subsection \<open>The call status\<close>




subsection \<open>Starting a call of type 'generate'\<close>

text \<open>
  Claim C3, evaluated on the code. With NEXT_PUBLIC_VAPI_WORKFLOW_ID set to "wf-1", a
  call of type 'generate' passes the guard on that variable and then gives \<open>vapi.start\<close>
  the value of NEXT_PUBLIC_VAPI_ASSISTANT_ID: "as-2" when that is set, and
  \<open>undefined\<close> when it is not. The workflow identifier is never passed.
\<close>

theorem generate_start_target:
  "NEXT_PUBLIC_VAPI_WORKFLOW_ID sample_env = Some ''wf-1''
   \<and> filter is_VapiStart
       (snd (step (sample_props\<lparr>agent_type := Generate\<rparr>) sample_env FeedbackThrown
               (MicSettled 0 MicGranted)
               (fst (step (sample_props\<lparr>agent_type := Generate\<rparr>) sample_env FeedbackThrown
                       ClickCall initial_world)))) =
       [VapiStart (EnvAssistantId (Some ''as-2'')) [(''userName'', ''Ada''), (''userid'', ''u1'')]]
   \<and> filter is_VapiStart
       (snd (step (sample_props\<lparr>agent_type := Generate\<rparr>)
               (sample_env\<lparr>NEXT_PUBLIC_VAPI_ASSISTANT_ID := None\<rparr>) FeedbackThrown
               (MicSettled 0 MicGranted)
               (fst (step (sample_props\<lparr>agent_type := Generate\<rparr>)
                       (sample_env\<lparr>NEXT_PUBLIC_VAPI_ASSISTANT_ID := None\<rparr>) FeedbackThrown
                       ClickCall initial_world)))) =
       [VapiStart (EnvAssistantId None) [(''userName'', ''Ada''), (''userid'', ''u1'')]]"
  by (simp add: step_def Let_def second_effect_def handler_defs sample_defs)

theorem generate_start_target_witness:
  "filter is_VapiStart
       (snd (step (sample_props\<lparr>agent_type := Generate\<rparr>) sample_env FeedbackThrown
               (MicSettled 0 MicGranted)
               (fst (step (sample_props\<lparr>agent_type := Generate\<rparr>) sample_env FeedbackThrown
                       ClickCall initial_world)))) \<noteq>
       [VapiStart (EnvAssistantId (NEXT_PUBLIC_VAPI_WORKFLOW_ID sample_env))
          [(''userName'', ''Ada''), (''userid'', ''u1'')]]"
proof -
  from generate_start_target have
    "filter is_VapiStart
       (snd (step (sample_props\<lparr>agent_type := Generate\<rparr>) sample_env FeedbackThrown
               (MicSettled 0 MicGranted)
               (fst (step (sample_props\<lparr>agent_type := Generate\<rparr>) sample_env FeedbackThrown
                       ClickCall initial_world)))) =
       [VapiStart (EnvAssistantId (Some ''as-2'')) [(''userName'', ''Ada''), (''userid'', ''u1'')]]"
    by (elim conjE)
  then show ?thesis
    by (simp only:) (simp add: sample_env_def)
qed

subsection \<open>The connect timeout\<close>

text \<open>
  Claim C5, evaluated on the code. A call is started from INACTIVE, the microphone is
  granted and \<open>vapi.start\<close> stays pending: the status is CONNECTING and the timer is set,
  its callback holding the status INACTIVE of the render in which the button was
  clicked. When the timer fires the status is still CONNECTING afterwards: the callback
  compares the captured status, not the current one, and resets nothing.
\<close>

theorem connect_timeout_stale:
  "callStatus (agent (run sample_props sample_env
      [(ClickCall, FeedbackThrown), (MicSettled 0 MicGranted, FeedbackThrown)] initial_world)) = CONNECTING
   \<and> timers (run sample_props sample_env
      [(ClickCall, FeedbackThrown), (MicSettled 0 MicGranted, FeedbackThrown)] initial_world) 0 = Some INACTIVE
   \<and> callStatus (agent (run sample_props sample_env
      [(ClickCall, FeedbackThrown), (MicSettled 0 MicGranted, FeedbackThrown),
       (TimeoutFires 0, FeedbackThrown)] initial_world)) = CONNECTING"
proof -
  have "run sample_props sample_env
      [(ClickCall, FeedbackThrown), (MicSettled 0 MicGranted, FeedbackThrown),
       (TimeoutFires 0, FeedbackThrown)] initial_world =
    fst (step sample_props sample_env FeedbackThrown (TimeoutFires 0)
      (run sample_props sample_env
        [(ClickCall, FeedbackThrown), (MicSettled 0 MicGranted, FeedbackThrown)] initial_world))"
    using run_snoc [of sample_props sample_env
        "[(ClickCall, FeedbackThrown), (MicSettled 0 MicGranted, FeedbackThrown)]"
        "TimeoutFires 0" FeedbackThrown initial_world]
    by simp
  then show ?thesis
    by (simp only: connecting_run)
       (simp add: step_def Let_def connectTimeout_def initial_state_def)
qed

theorem connect_timeout_stale_witness:
  "callStatus (agent (run sample_props sample_env
      [(ClickCall, FeedbackThrown), (MicSettled 0 MicGranted, FeedbackThrown),
       (TimeoutFires 0, FeedbackThrown)] initial_world)) \<noteq> INACTIVE"
proof -
  from connect_timeout_stale have
    "callStatus (agent (run sample_props sample_env
      [(ClickCall, FeedbackThrown), (MicSettled 0 MicGranted, FeedbackThrown),
       (TimeoutFires 0, FeedbackThrown)] initial_world)) = CONNECTING"
    by (elim conjE)
  then show ?thesis
    by (simp only:) simp
qed

subsection \<open>Errors\<close>

text \<open>
  Claim C6, as the spec states it, fails at the handler of the SDK's 'error' event.
  During an active call an error event is only written to the debug log and to the
  console: no alert or toast is shown, the call status stays ACTIVE and nothing
  redirects.
\<close>

theorem sdk_error_only_logged_counterexample:
  "callStatus (agent (run sample_props sample_env sample_call initial_world)) = ACTIVE
   \<and> snd (step sample_props sample_env FeedbackThrown (SdkError ''connection lost'')
            (run sample_props sample_env sample_call initial_world)) =
       [DebugLog ''Error event received'', ConsoleError ''VAPI Error:'']
   \<and> agent (fst (step sample_props sample_env FeedbackThrown (SdkError ''connection lost'')
            (run sample_props sample_env sample_call initial_world))) =
       agent (run sample_props sample_env sample_call initial_world)"
  by (simp add: step_no_change on_agent_def onError_def sample_call_world)

text \<open>
  Claim C6, amended. The handler of the SDK's 'error' event only logs the error (debug
  log and console): the step leaves the whole state as it is, alerts nothing and
  redirects nowhere. A failure to start the call is caught, written to the debug log and
  to the console, shown in exactly one alert "Failed to start call: ..." with the
  message of the error, and the call status is reset to INACTIVE, without a redirect:
  this holds of a throw before \<open>vapi.start\<close> (the workflow variable not set for type
  'generate', the interviewer configuration missing otherwise; then \<open>vapi.start\<close> is not
  called), and of a rejection of \<open>vapi.start\<close> with a value that the logging of the catch
  block can print and serialise. A failure of \<open>createFeedback\<close> when the call of an
  agent of type 'interview' is over is logged, to the debug log and the console for a
  thrown error and to the debug log for a result without success or without an id, and
  redirects once, to the home page "/"; it shows no alert.
\<close>

theorem error_paths:
  "step props env outcome (SdkError e) w =
     (w, [DebugLog ''Error event received'', ConsoleError ''VAPI Error:''])
   \<and> (pending_mic w n \<noteq> None
        \<and> \<not> (if agent_type props = Generate then truthy (NEXT_PUBLIC_VAPI_WORKFLOW_ID env)
               else interviewer env \<noteq> None) \<longrightarrow>
        callStatus (agent (fst (step props env outcome (MicSettled n MicGranted) w))) = INACTIVE
        \<and> DebugLog ''ERROR starting VAPI call''
            \<in> set (snd (step props env outcome (MicSettled n MicGranted) w))
        \<and> filter is_ConsoleError (snd (step props env outcome (MicSettled n MicGranted) w)) =
            [ConsoleError ''Error starting VAPI call:'']
        \<and> filter is_Alert (snd (step props env outcome (MicSettled n MicGranted) w)) =
            [Alert (''Failed to start call: '' @
               (if agent_type props = Generate then ''NEXT_PUBLIC_VAPI_WORKFLOW_ID is not set''
                else ''Interviewer configuration is not available''))]
        \<and> filter is_RouterPush (snd (step props env outcome (MicSettled n MicGranted) w)) = []
        \<and> filter is_VapiStart (snd (step props env outcome (MicSettled n MicGranted) w)) = [])
   \<and> (n \<in> pending_start w \<and> printable t \<and> serialisable t \<longrightarrow>
        callStatus (agent (fst (step props env outcome (StartSettled n (StartRejected t)) w))) = INACTIVE
        \<and> DebugLog ''ERROR starting VAPI call''
            \<in> set (snd (step props env outcome (StartSettled n (StartRejected t)) w))
        \<and> filter is_ConsoleError (snd (step props env outcome (StartSettled n (StartRejected t)) w)) =
            [ConsoleError ''Error starting VAPI call:'']
        \<and> filter is_Alert (snd (step props env outcome (StartSettled n (StartRejected t)) w)) =
            [Alert (''Failed to start call: '' @ errorMessage t)]
        \<and> filter is_RouterPush (snd (step props env outcome (StartSettled n (StartRejected t)) w)) = [])
   \<and> (agent_type props = Interview \<and> callStatus (agent w) \<noteq> FINISHED
        \<and> callStatus (agent (fst (step props env FeedbackThrown ev w))) = FINISHED \<longrightarrow>
        DebugLog ''Error in handleGenerateFeedback'' \<in> set (snd (step props env FeedbackThrown ev w))
        \<and> ConsoleError ''Feedback generation error:'' \<in> set (snd (step props env FeedbackThrown ev w))
        \<and> filter is_RouterPush (snd (step props env FeedbackThrown ev w)) = [RouterPush ''/'']
        \<and> filter is_Alert (snd (step props env FeedbackThrown ev w)) = [])
   \<and> (agent_type props = Interview \<and> callStatus (agent w) \<noteq> FINISHED
        \<and> callStatus (agent (fst (step props env (FeedbackResult success ident) ev w))) = FINISHED
        \<and> \<not> (success \<and> truthy ident) \<longrightarrow>
        DebugLog ''Error saving feedback - redirecting to home''
          \<in> set (snd (step props env (FeedbackResult success ident) ev w))
        \<and> filter is_RouterPush (snd (step props env (FeedbackResult success ident) ev w)) =
            [RouterPush ''/'']
        \<and> filter is_Alert (snd (step props env (FeedbackResult success ident) ev w)) = [])"
proof -
  have err: "step props env outcome (SdkError e) w =
     (w, [DebugLog ''Error event received'', ConsoleError ''VAPI Error:''])"
    by (simp add: step_def on_agent_def onError_def)
  have before: "callStatus (agent (fst (step props env outcome (MicSettled n MicGranted) w))) = INACTIVE
        \<and> DebugLog ''ERROR starting VAPI call''
            \<in> set (snd (step props env outcome (MicSettled n MicGranted) w))
        \<and> filter is_ConsoleError (snd (step props env outcome (MicSettled n MicGranted) w)) =
            [ConsoleError ''Error starting VAPI call:'']
        \<and> filter is_Alert (snd (step props env outcome (MicSettled n MicGranted) w)) =
            [Alert (''Failed to start call: '' @
               (if agent_type props = Generate then ''NEXT_PUBLIC_VAPI_WORKFLOW_ID is not set''
                else ''Interviewer configuration is not available''))]
        \<and> filter is_RouterPush (snd (step props env outcome (MicSettled n MicGranted) w)) = []
        \<and> filter is_VapiStart (snd (step props env outcome (MicSettled n MicGranted) w)) = []"
    if p: "pending_mic w n \<noteq> None"
      and r: "\<not> (if agent_type props = Generate then truthy (NEXT_PUBLIC_VAPI_WORKFLOW_ID env)
               else interviewer env \<noteq> None)"
  proof -
    note h = handle_MicGranted_throw [OF p r]
    note s = step_to_inactive [OF h(1)]
    show ?thesis
      using s(1) s(2) s(3) s(4) s(5) h(3) h(4) h(5) h(6) s(6) [OF h(2)] by simp
  qed
  have rejected: "callStatus (agent (fst (step props env outcome (StartSettled n (StartRejected t)) w))) = INACTIVE
        \<and> DebugLog ''ERROR starting VAPI call''
            \<in> set (snd (step props env outcome (StartSettled n (StartRejected t)) w))
        \<and> filter is_ConsoleError (snd (step props env outcome (StartSettled n (StartRejected t)) w)) =
            [ConsoleError ''Error starting VAPI call:'']
        \<and> filter is_Alert (snd (step props env outcome (StartSettled n (StartRejected t)) w)) =
            [Alert (''Failed to start call: '' @ errorMessage t)]
        \<and> filter is_RouterPush (snd (step props env outcome (StartSettled n (StartRejected t)) w)) = []"
    if "n \<in> pending_start w" and "printable t" and "serialisable t"
  proof -
    note h = handle_StartRejected [OF that]
    note s = step_to_inactive [OF h(1)]
    show ?thesis
      using s(1) s(2) s(3) s(4) h(3) h(4) h(5) s(6) [OF h(2)] by simp
  qed
  have thrown: "DebugLog ''Error in handleGenerateFeedback'' \<in> set (snd (step props env FeedbackThrown ev w))
        \<and> ConsoleError ''Feedback generation error:'' \<in> set (snd (step props env FeedbackThrown ev w))
        \<and> filter is_RouterPush (snd (step props env FeedbackThrown ev w)) = [RouterPush ''/'']
        \<and> filter is_Alert (snd (step props env FeedbackThrown ev w)) = []"
    if "agent_type props = Interview" and "callStatus (agent w) \<noteq> FINISHED"
      and "callStatus (agent (fst (step props env FeedbackThrown ev w))) = FINISHED"
  proof -
    note f = step_finish_interview [OF that]
    show ?thesis
      using f(3) handleGenerateFeedback_failed(2,3) [of props]
      by (auto simp add: f(1) f(2) handleGenerateFeedback_redirect)
  qed
  have failed: "DebugLog ''Error saving feedback - redirecting to home''
          \<in> set (snd (step props env (FeedbackResult success ident) ev w))
        \<and> filter is_RouterPush (snd (step props env (FeedbackResult success ident) ev w)) =
            [RouterPush ''/'']
        \<and> filter is_Alert (snd (step props env (FeedbackResult success ident) ev w)) = []"
    if "agent_type props = Interview" and "callStatus (agent w) \<noteq> FINISHED"
      and "callStatus (agent (fst (step props env (FeedbackResult success ident) ev w))) = FINISHED"
      and n: "\<not> (success \<and> truthy ident)"
  proof -
    note f = step_finish_interview [OF that(1,2,3)]
    show ?thesis
      using f(3) handleGenerateFeedback_failed(4) [OF n, of props] n
      by (auto simp add: f(1) f(2) handleGenerateFeedback_redirect)
  qed
  show ?thesis
    using err before rejected thrown failed by blast
qed

theorem error_paths_witness:
  "(pending_mic (fst (step sample_props (sample_env\<lparr>interviewer := None\<rparr>) FeedbackThrown
        ClickCall initial_world)) 0 \<noteq> None
    \<and> agent_type sample_props \<noteq> Generate \<and> interviewer (sample_env\<lparr>interviewer := None\<rparr>) = None
    \<and> filter is_Alert (snd (step sample_props (sample_env\<lparr>interviewer := None\<rparr>) FeedbackThrown
        (MicSettled 0 MicGranted)
        (fst (step sample_props (sample_env\<lparr>interviewer := None\<rparr>) FeedbackThrown
           ClickCall initial_world)))) =
       [Alert ''Failed to start call: Interviewer configuration is not available''])
   \<and> (0 \<in> pending_start (run sample_props sample_env
        [(ClickCall, FeedbackThrown), (MicSettled 0 MicGranted, FeedbackThrown)] initial_world)
    \<and> printable (ErrorObject ''no network'' True) \<and> serialisable (ErrorObject ''no network'' True)
    \<and> callStatus (agent (fst (step sample_props sample_env FeedbackThrown
        (StartSettled 0 (StartRejected (ErrorObject ''no network'' True)))
        (run sample_props sample_env
          [(ClickCall, FeedbackThrown), (MicSettled 0 MicGranted, FeedbackThrown)] initial_world)))) = INACTIVE
    \<and> filter is_Alert (snd (step sample_props sample_env FeedbackThrown
        (StartSettled 0 (StartRejected (ErrorObject ''no network'' True)))
        (run sample_props sample_env
          [(ClickCall, FeedbackThrown), (MicSettled 0 MicGranted, FeedbackThrown)] initial_world))) =
       [Alert ''Failed to start call: no network''])
   \<and> (agent_type sample_props = Interview
    \<and> callStatus (agent (run sample_props sample_env sample_call initial_world)) \<noteq> FINISHED
    \<and> callStatus (agent (fst (step sample_props sample_env (FeedbackResult True (Some ''''))
        SdkCallEnd (run sample_props sample_env sample_call initial_world)))) = FINISHED
    \<and> \<not> (True \<and> truthy (Some ''''))
    \<and> filter is_RouterPush (snd (step sample_props sample_env (FeedbackResult True (Some ''''))
        SdkCallEnd (run sample_props sample_env sample_call initial_world))) = [RouterPush ''/''])"
proof -
  let ?env = "sample_env\<lparr>interviewer := None\<rparr>"
  let ?w1 = "fst (step sample_props ?env FeedbackThrown ClickCall initial_world)"
  let ?w2 = "run sample_props sample_env
        [(ClickCall, FeedbackThrown), (MicSettled 0 MicGranted, FeedbackThrown)] initial_world"
  let ?w3 = "run sample_props sample_env sample_call initial_world"
  have a1: "pending_mic ?w1 0 \<noteq> None"
    by (simp only: clicked_world) simp
  have a2: "agent_type sample_props \<noteq> Generate" "interviewer ?env = None"
    by (simp_all add: sample_props_def)
  have a3: "\<not> (if agent_type sample_props = Generate
                then truthy (NEXT_PUBLIC_VAPI_WORKFLOW_ID ?env) else interviewer ?env \<noteq> None)"
    using a2 by simp
  have b1: "0 \<in> pending_start ?w2"
    by (simp only: connecting_run) simp
  have b2: "printable (ErrorObject ''no network'' True)" "serialisable (ErrorObject ''no network'' True)"
    by (simp_all add: printable_def serialisable_def)
  have c1: "agent_type sample_props = Interview"
    by (simp add: sample_props_def)
  have c2: "callStatus (agent ?w3) \<noteq> FINISHED"
    by (simp add: sample_call_world)
  have c3: "callStatus (agent (fst (step sample_props sample_env (FeedbackResult True (Some ''''))
        SdkCallEnd ?w3))) = FINISHED"
    by (simp add: step_callStatus on_agent_def onCallEnd_def)
  have c4: "\<not> (True \<and> truthy (Some ''''))"
    by (simp add: truthy_def)
  note first = error_paths [where props = sample_props and env = ?env and outcome = FeedbackThrown
      and w = ?w1 and n = 0]
  note second = error_paths [where props = sample_props and env = sample_env
      and outcome = FeedbackThrown and w = ?w2 and n = 0 and t = "ErrorObject ''no network'' True"]
  note third = error_paths [where props = sample_props and env = sample_env and w = ?w3
      and ev = SdkCallEnd and success = True and ident = "Some ''''"]
  from first a1 a3 have r1:
    "filter is_Alert (snd (step sample_props ?env FeedbackThrown (MicSettled 0 MicGranted) ?w1)) =
       [Alert (''Failed to start call: '' @
          (if agent_type sample_props = Generate then ''NEXT_PUBLIC_VAPI_WORKFLOW_ID is not set''
           else ''Interviewer configuration is not available''))]"
    by blast
  from second b1 b2 have r2:
    "callStatus (agent (fst (step sample_props sample_env FeedbackThrown
        (StartSettled 0 (StartRejected (ErrorObject ''no network'' True))) ?w2))) = INACTIVE"
    "filter is_Alert (snd (step sample_props sample_env FeedbackThrown
        (StartSettled 0 (StartRejected (ErrorObject ''no network'' True))) ?w2)) =
       [Alert (''Failed to start call: '' @ errorMessage (ErrorObject ''no network'' True))]"
    by blast+
  from third c1 c2 c3 c4 have r3:
    "filter is_RouterPush (snd (step sample_props sample_env (FeedbackResult True (Some ''''))
        SdkCallEnd ?w3)) = [RouterPush ''/'']"
    by blast
  show ?thesis
    using a1 a2 b1 b2 c1 c2 c3 c4 r2(1)
    by (simp only: r1 r2(2) r3) (simp add: errorMessage_def)
qed

subsection \<open>The microphone request\<close>

text \<open>
  Claim C7. \<open>handleCall\<close> first requests microphone access: until it awaits that
  request it only writes debug logs, and the click leaves the state as it is. Whenever
  the request fails, an alert is shown and \<open>handleCall\<close> returns: the step consists of
  one debug log and the alert, the state of the agent (the call status in particular) and
  the timers are unchanged, no call of \<open>vapi.start\<close> is made or awaited, and the status
  does not become CONNECTING.
\<close>

theorem microphone_denied:
  "snd (step props env outcome ClickCall w) =
     (if callStatus (agent w) \<noteq> ACTIVE then handleCall_begin else [])
   \<and> agent (fst (step props env outcome ClickCall w)) = agent w
   \<and> filter (\<lambda>a. \<not> is_DebugLog a) handleCall_begin = [GetUserMedia]
   \<and> (pending_mic w n \<noteq> None \<longrightarrow>
        step props env outcome (MicSettled n MicDenied) w =
          (w\<lparr>pending_mic := (pending_mic w)(n := None)\<rparr>,
           [DebugLog ''Microphone permission error'',
            Alert ''Microphone access is required for the interview. Please grant permission and try again.'']))"
proof -
  have a: "agent (fst (handle props env ClickCall w)) = agent w"
    by simp
  have b: "agent (fst (handle props env (MicSettled n MicDenied) w)) = agent w"
    by (simp add: handleCall_afterMic_def split: option.splits)
  have c: "filter (\<lambda>a. \<not> is_DebugLog a) handleCall_begin = [GetUserMedia]"
    by (simp add: handleCall_begin_def)
  have d: "handle props env (MicSettled n MicDenied) w =
          (w\<lparr>pending_mic := (pending_mic w)(n := None)\<rparr>,
           [DebugLog ''Microphone permission error'',
            Alert ''Microphone access is required for the interview. Please grant permission and try again.''])"
    if "pending_mic w n \<noteq> None"
    using that by (auto simp add: handleCall_afterMic_def)
  show ?thesis
    using c d by (simp add: step_no_change [OF a] step_no_change [OF b])
qed

theorem microphone_denied_witness:
  "pending_mic (fst (step sample_props sample_env FeedbackThrown ClickCall initial_world)) 0 \<noteq> None
   \<and> agent (fst (step sample_props sample_env FeedbackThrown (MicSettled 0 MicDenied)
        (fst (step sample_props sample_env FeedbackThrown ClickCall initial_world)))) = initial_state
   \<and> snd (step sample_props sample_env FeedbackThrown (MicSettled 0 MicDenied)
        (fst (step sample_props sample_env FeedbackThrown ClickCall initial_world))) =
       [DebugLog ''Microphone permission error'',
        Alert ''Microphone access is required for the interview. Please grant permission and try again.'']"
proof -
  let ?w = "fst (step sample_props sample_env FeedbackThrown ClickCall initial_world)"
  have w: "?w = initial_world\<lparr>pending_mic := [0 \<mapsto> INACTIVE], next_call := Suc 0\<rparr>"
    by (simp add: step_def Let_def initial_world_def initial_state_def)
  have p: "pending_mic ?w 0 \<noteq> None"
    by (simp only: w) simp
  show ?thesis
    using p microphone_denied [of sample_props sample_env FeedbackThrown initial_world 0]
      microphone_denied [of sample_props sample_env FeedbackThrown ?w 0]
    by (simp add: initial_world_def)
qed

subsection \<open>The listeners\<close>

text \<open>
  Claim C8. On mount the agent registers exactly one handler for each of the six SDK
  events call-start, call-end, message, speech-start, speech-end and error, and
  registers nothing else. The cleanup of the effect unregisters exactly those six, each
  under the same event name and with the same function reference. Starting from an SDK
  without listeners, each of the six events has one listener after the mount and no other
  event has any; and whatever was registered before the mount, after the cleanup the
  SDK's listeners are what they were before: none of the agent's is left.
\<close>

theorem listeners_registered_and_removed:
  "filter is_VapiOn (mount_effect g) =
     [VapiOn ''call-start'' (g, H_onCallStart), VapiOn ''call-end'' (g, H_onCallEnd),
      VapiOn ''message'' (g, H_onMessage), VapiOn ''speech-start'' (g, H_onSpeechStart),
      VapiOn ''speech-end'' (g, H_onSpeechEnd), VapiOn ''error'' (g, H_onError)]
   \<and> filter is_VapiOff (mount_effect g) = []
   \<and> filter is_VapiOff (cleanup g) =
     [VapiOff ''call-start'' (g, H_onCallStart), VapiOff ''call-end'' (g, H_onCallEnd),
      VapiOff ''message'' (g, H_onMessage), VapiOff ''speech-start'' (g, H_onSpeechStart),
      VapiOff ''speech-end'' (g, H_onSpeechEnd), VapiOff ''error'' (g, H_onError)]
   \<and> filter is_VapiOn (cleanup g) = []
   \<and> sdk_run (mount_effect g) (\<lambda>name. []) =
       (\<lambda>name. if name = ''call-start'' then [(g, H_onCallStart)]
                else if name = ''call-end'' then [(g, H_onCallEnd)]
                else if name = ''message'' then [(g, H_onMessage)]
                else if name = ''speech-start'' then [(g, H_onSpeechStart)]
                else if name = ''speech-end'' then [(g, H_onSpeechEnd)]
                else if name = ''error'' then [(g, H_onError)]
                else [])
   \<and> sdk_run (cleanup g) (sdk_run (mount_effect g) r) = r"
proof -
  have reg: "sdk_run (mount_effect g) (\<lambda>name. []) =
       (\<lambda>name. if name = ''call-start'' then [(g, H_onCallStart)]
                else if name = ''call-end'' then [(g, H_onCallEnd)]
                else if name = ''message'' then [(g, H_onMessage)]
                else if name = ''speech-start'' then [(g, H_onSpeechStart)]
                else if name = ''speech-end'' then [(g, H_onSpeechEnd)]
                else if name = ''error'' then [(g, H_onError)]
                else [])"
    by (rule ext) (simp add: sdk_run_def mount_effect_def)
  show ?thesis
    using reg by (simp add: mount_then_cleanup) (simp add: mount_effect_def cleanup_def)
qed

theorem listeners_registered_and_removed_witness:
  "sdk_run (mount_effect 0) (\<lambda>name. []) ''message'' = [(0, H_onMessage)]
   \<and> sdk_run (cleanup 0) (sdk_run (mount_effect 0) (\<lambda>name. [])) ''message'' = []
   \<and> sdk_run (cleanup 1) (sdk_run (mount_effect 1) (sdk_run (mount_effect 0) (\<lambda>name. []))) ''message''
       = [(0, H_onMessage)]"
proof -
  note first = listeners_registered_and_removed [of 0 "\<lambda>name. []"]
  note second = listeners_registered_and_removed [of 1 "sdk_run (mount_effect 0) (\<lambda>name. [])"]
  from first have reg:
    "sdk_run (mount_effect 0) (\<lambda>name. []) ''message'' = [(0, H_onMessage)]"
    by (elim conjE) simp
  from first have gone:
    "sdk_run (cleanup 0) (sdk_run (mount_effect 0) (\<lambda>name. [])) = (\<lambda>name. [])"
    by (elim conjE)
  from second have kept:
    "sdk_run (cleanup 1) (sdk_run (mount_effect 1) (sdk_run (mount_effect 0) (\<lambda>name. []))) =
       sdk_run (mount_effect 0) (\<lambda>name. [])"
    by (elim conjE)
  show ?thesis
    by (simp only: gone kept reg)
qed

subsection \<open>The last message\<close>

text \<open>
  Claim C9. Whenever the messages array is not empty, \<open>lastMessage\<close> is the content of
  the final element of the array: the second effect sets it so on every run, and it
  holds of the state after every sequence of steps of the component, the effect having
  run for each change of the array.
\<close>

theorem last_message_shown:
  "(messages s \<noteq> [] \<longrightarrow>
      lastMessage (fst (second_effect props outcome s)) = content (last (messages s)))
   \<and> (messages (agent (run props env evs initial_world)) \<noteq> [] \<longrightarrow>
      lastMessage (agent (run props env evs initial_world)) =
        content (last (messages (agent (run props env evs initial_world)))))"
proof -
  have "messages (agent initial_world) \<noteq> [] \<longrightarrow>
      lastMessage (agent initial_world) = content (last (messages (agent initial_world)))"
    by (simp add: initial_world_def initial_state_def)
  from run_lastMessage_inv [OF this] show ?thesis
    by (simp add: second_effect_lastMessage)
qed

theorem last_message_shown_witness:
  "messages (agent (run sample_props sample_env sample_call initial_world)) \<noteq> []
   \<and> lastMessage (agent (run sample_props sample_env sample_call initial_world)) = ''hello''
   \<and> content (last (messages (agent (run sample_props sample_env sample_call initial_world)))) = ''hello''"
  using last_message_shown [of "agent (run sample_props sample_env sample_call initial_world)"
      sample_props FeedbackThrown sample_env sample_call]
  by (simp add: sample_call_world)

section \<open>Properties of the validation schema\<close>

text \<open>
  Claim C10. In both AuthForm variants the schema for 'sign-up' rejects every submission
  whose name is shorter than 3 characters, with the issue "Name must be at least 3
  characters"; the schema for 'sign-in' accepts a submission with the name absent (its
  email being valid and its password long enough: 8 characters in one file, 6 in the
  other); and for every form type the schema rejects an input whose email field is not a
  valid email address, absent included.
\<close>

theorem auth_schema_validation:
  "(name inp = Some n \<and> length n < 3 \<longrightarrow>
      isl (authFormSchema is_email SignUp inp)
      \<and> ''Name must be at least 3 characters'' \<in> set (projl (authFormSchema is_email SignUp inp))
      \<and> isl (authFormSchema_part_001 is_email SignUp inp)
      \<and> ''Name must be at least 3 characters''
           \<in> set (projl (authFormSchema_part_001 is_email SignUp inp)))
   \<and> (is_email e \<and> 8 \<le> length pw \<longrightarrow>
      authFormSchema is_email SignIn \<lparr>name = None, email = Some e, password = Some pw\<rparr> =
        Inr \<lparr>name = None, email = Some e, password = Some pw\<rparr>)
   \<and> (is_email e \<and> 6 \<le> length pw \<longrightarrow>
      authFormSchema_part_001 is_email SignIn \<lparr>name = None, email = Some e, password = Some pw\<rparr> =
        Inr \<lparr>name = None, email = Some e, password = Some pw\<rparr>)
   \<and> (\<not> (\<exists>a. email inp = Some a \<and> is_email a) \<longrightarrow>
      isl (authFormSchema is_email t inp) \<and> isl (authFormSchema_part_001 is_email t inp))"
proof -
  have short: "isl (authFormSchema is_email SignUp inp)
      \<and> ''Name must be at least 3 characters'' \<in> set (projl (authFormSchema is_email SignUp inp))
      \<and> isl (authFormSchema_part_001 is_email SignUp inp)
      \<and> ''Name must be at least 3 characters''
           \<in> set (projl (authFormSchema_part_001 is_email SignUp inp))"
    if "name inp = Some n" and "length n < 3"
    using that by (simp add: schema_defs Let_def)
  have absent8: "authFormSchema is_email SignIn \<lparr>name = None, email = Some e, password = Some pw\<rparr> =
        Inr \<lparr>name = None, email = Some e, password = Some pw\<rparr>"
    if "is_email e" and "8 \<le> length pw"
    using that by (simp add: schema_defs Let_def)
  have absent6: "authFormSchema_part_001 is_email SignIn \<lparr>name = None, email = Some e, password = Some pw\<rparr> =
        Inr \<lparr>name = None, email = Some e, password = Some pw\<rparr>"
    if "is_email e" and "6 \<le> length pw"
    using that by (simp add: schema_defs Let_def)
  have bad: "isl (authFormSchema is_email t inp) \<and> isl (authFormSchema_part_001 is_email t inp)"
    if "\<not> (\<exists>a. email inp = Some a \<and> is_email a)"
    using that by (cases "email inp") (simp_all add: schema_defs Let_def)
  show ?thesis
    using short absent8 absent6 bad by blast
qed

theorem auth_schema_validation_witness:
  "isl (authFormSchema (\<lambda>a. CHR ''@'' \<in> set a) SignUp
         \<lparr>name = Some ''Al'', email = Some ''al@example.org'', password = Some ''12345678''\<rparr>)
   \<and> authFormSchema (\<lambda>a. CHR ''@'' \<in> set a) SignIn
         \<lparr>name = None, email = Some ''al@example.org'', password = Some ''12345678''\<rparr> =
       Inr \<lparr>name = None, email = Some ''al@example.org'', password = Some ''12345678''\<rparr>
   \<and> authFormSchema_part_001 (\<lambda>a. CHR ''@'' \<in> set a) SignIn
         \<lparr>name = None, email = Some ''al@example.org'', password = Some ''12345678''\<rparr> =
       Inr \<lparr>name = None, email = Some ''al@example.org'', password = Some ''12345678''\<rparr>
   \<and> isl (authFormSchema (\<lambda>a. CHR ''@'' \<in> set a) SignIn
         \<lparr>name = None, email = Some ''nobody'', password = Some ''12345678''\<rparr>)
   \<and> isl (authFormSchema_part_001 (\<lambda>a. CHR ''@'' \<in> set a) SignUp
         \<lparr>name = Some ''Alan'', email = Some ''nobody'', password = Some ''12345678''\<rparr>)"
  using
    auth_schema_validation [where is_email = "\<lambda>a. CHR ''@'' \<in> set a" and n = "''Al''"
      and inp = "\<lparr>name = Some ''Al'', email = Some ''al@example.org'', password = Some ''12345678''\<rparr>"
      and e = "''al@example.org''" and pw = "''12345678''" and t = SignUp]
    auth_schema_validation [where is_email = "\<lambda>a. CHR ''@'' \<in> set a" and n = "''Al''"
      and inp = "\<lparr>name = None, email = Some ''nobody'', password = Some ''12345678''\<rparr>"
      and e = "''al@example.org''" and pw = "''12345678''" and t = SignIn]
    auth_schema_validation [where is_email = "\<lambda>a. CHR ''@'' \<in> set a" and n = "''Al''"
      and inp = "\<lparr>name = Some ''Alan'', email = Some ''nobody'', password = Some ''12345678''\<rparr>"
      and e = "''al@example.org''" and pw = "''12345678''" and t = SignUp]
  by simp

end
